theory Spec2Isabelle
  imports Complex_Main
begin

section \<open>The Metropolis sampling loop of \<open>MCMC_example.ipynb\<close>\<close>

text \<open>
  The notebook's algorithmic content is two cells:
  \<^verbatim>\<open>
  target_dist = lambda x: np.sin(x)*np.sin(2*x)**2*(1/np.sqrt(2*np.pi)*np.exp(-x**2/2))

  x_target = []
  x_current = 0
  scale = 0.2
  for i in range(1000000):
      x_proposal = x_current-np.random.uniform(low=-scale/2, high=scale/2)
      if np.random.uniform() < min(1,target_dist(x_proposal)/target_dist(x_current)):
          x_target.append(x_proposal)
          x_current = x_proposal
  \<close>
  Positions and finite density values are floating-point numbers; they are modelled as
  reals (no rounding, no overflow, no signed zero). What the quotient of two density
  values adds to the finite numbers is kept: \<open>target_dist\<close> returns numpy scalars, so
  \<open>/\<close> is numpy's division, which at a zero divisor returns an infinity or NaN and emits
  a \<open>RuntimeWarning\<close> instead of raising.

  The loop is given for two kinds of density. \<open>step\<close> and \<open>run\<close> take a density that
  returns a finite value or raises, as the notebook's does at every position. \<open>step_np\<close>
  and \<open>run_np\<close> take a density that may also return an infinity or NaN, which is what
  numpy returns, without raising, where a value is undefined (\<open>np.sqrt(-1.0)\<close>); on
  finite values they are \<open>step\<close> and \<open>run\<close>.
\<close>

subsection \<open>Numbers\<close>

datatype npfloat = Finite real | PosInf | NegInf | NaN

datatype np_warning = DivideByZero | InvalidValue

text \<open>
  \<open>a / b\<close> on numpy scalars with finite operands: the quotient and the warning numpy
  emits with it ("divide by zero encountered", "invalid value encountered").
\<close>

definition true_divide :: "real \<Rightarrow> real \<Rightarrow> npfloat \<times> np_warning option" where
  "true_divide a b =
     (if b \<noteq> 0 then (Finite (a / b), None)
      else if a = 0 then (NaN, Some InvalidValue)
      else if 0 < a then (PosInf, Some DivideByZero)
      else (NegInf, Some DivideByZero))"

text \<open>The comparisons \<open><\<close> and \<open><=\<close> of floating-point numbers: false when either side is NaN.\<close>

fun fl_less :: "npfloat \<Rightarrow> npfloat \<Rightarrow> bool" where
  "fl_less (Finite a) (Finite b) = (a < b)"
| "fl_less (Finite a) PosInf = True"
| "fl_less NegInf (Finite b) = True"
| "fl_less NegInf PosInf = True"
| "fl_less _ _ = False"

fun fl_le :: "npfloat \<Rightarrow> npfloat \<Rightarrow> bool" where
  "fl_le (Finite a) (Finite b) = (a \<le> b)"
| "fl_le NaN _ = False"
| "fl_le _ NaN = False"
| "fl_le NegInf _ = True"
| "fl_le _ PosInf = True"
| "fl_le _ _ = False"

text \<open>
  Python's \<open>min(a, b)\<close> keeps its first argument unless the second compares less, so
  \<open>min(1, nan)\<close> is \<open>1\<close>.
\<close>

definition py_min :: "npfloat \<Rightarrow> npfloat \<Rightarrow> npfloat" where
  "py_min a b = (if fl_less b a then b else a)"

text \<open>
  \<open>np.random.uniform(low, high)\<close> is \<open>low + (high - low) * r\<close> for a sample \<open>r\<close> of the
  generator's unit interval \<open>[0, 1)\<close>; \<open>np.random.uniform()\<close> has \<open>low = 0\<close>, \<open>high = 1\<close>.
  The generator is outside the notebook: the unit samples are a parameter of the model.
\<close>

definition np_uniform :: "real \<Rightarrow> real \<Rightarrow> real \<Rightarrow> real" where
  "np_uniform low high r = low + (high - low) * r"

definition unit_sample :: "real \<Rightarrow> bool" where
  "unit_sample r = (0 \<le> r \<and> r < 1)"

subsection \<open>The chain\<close>

text \<open>
  The loop's variables, and the warnings numpy has emitted so far. A density is a function
  from a position to a value, or to the exception it raises there; in this subsection the
  value is finite.
\<close>

record chain =
  x_target :: "real list"
  x_current :: real
  warned :: "np_warning list"

definition init :: "real \<Rightarrow> chain" where
  "init x0 = \<lparr>x_target = [], x_current = x0, warned = []\<rparr>"

text \<open>The proposed position \<open>x_current-np.random.uniform(low=-scale/2, high=scale/2)\<close>.\<close>

definition x_proposal :: "real \<Rightarrow> real \<Rightarrow> real \<Rightarrow> real" where
  "x_proposal scale xc r = xc - np_uniform (- scale / 2) (scale / 2) r"

text \<open>The value \<open>min(1, target_dist(x_proposal)/target_dist(x_current))\<close>.\<close>

definition acceptance :: "real \<Rightarrow> real \<Rightarrow> npfloat" where
  "acceptance tp tc = py_min (Finite 1) (fst (true_divide tp tc))"

definition warn :: "np_warning option \<Rightarrow> chain \<Rightarrow> chain" where
  "warn w s = (case w of None \<Rightarrow> s | Some x \<Rightarrow> s\<lparr>warned := warned s @ [x]\<rparr>)"

text \<open>
  One iteration of the loop body, on the pair \<open>d\<close> of unit samples it consumes. The
  density is evaluated at the proposal first, then at the current position; an exception
  of either call leaves the loop.
\<close>

definition step :: "(real \<Rightarrow> 'e + real) \<Rightarrow> real \<Rightarrow> chain \<Rightarrow> real \<times> real \<Rightarrow> 'e + chain" where
  "step target_dist scale s d =
     (let p = x_proposal scale (x_current s) (fst d);
          u = np_uniform 0 1 (snd d)
      in case target_dist p of
           Inl e \<Rightarrow> Inl e
         | Inr tp \<Rightarrow>
             (case target_dist (x_current s) of
                Inl e \<Rightarrow> Inl e
              | Inr tc \<Rightarrow>
                  (let s1 = warn (snd (true_divide tp tc)) s
                   in if fl_less (Finite u) (acceptance tp tc)
                      then Inr (s1\<lparr>x_target := x_target s1 @ [p], x_current := p\<rparr>)
                      else Inr s1)))"

text \<open>
  The loop over the draws of its iterations: the variables when it ends, and the exception
  that ended it, if one did.
\<close>

fun run :: "(real \<Rightarrow> 'e + real) \<Rightarrow> real \<Rightarrow> chain \<Rightarrow> (real \<times> real) list \<Rightarrow> chain \<times> 'e option" where
  "run target_dist scale s [] = (s, None)"
| "run target_dist scale s (d # ds) =
     (case step target_dist scale s d of
        Inl e \<Rightarrow> (s, Some e)
      | Inr s' \<Rightarrow> run target_dist scale s' ds)"

text \<open>\<open>n\<close> iterations from \<open>x0\<close>, iteration \<open>i\<close> consuming the draws \<open>rng i\<close>.\<close>

definition sampling_loop ::
  "(real \<Rightarrow> 'e + real) \<Rightarrow> real \<Rightarrow> real \<Rightarrow> nat \<Rightarrow> (nat \<Rightarrow> real \<times> real) \<Rightarrow> chain \<times> 'e option" where
  "sampling_loop target_dist scale x0 n rng = run target_dist scale (init x0) (map rng [0..<n])"

subsection \<open>Densities with non-finite values\<close>








subsection \<open>The notebook's density and run\<close>

definition target_value :: "real \<Rightarrow> real" where
  "target_value x = sin x * (sin (2 * x))\<^sup>2 * (1 / sqrt (2 * pi) * exp (- x\<^sup>2 / 2))"

datatype py_exception = ValueError | OverflowError | TargetEvaluationError real

definition target_dist :: "real \<Rightarrow> py_exception + real" where
  "target_dist x = Inr (target_value x)"

definition cell9 :: "(nat \<Rightarrow> real \<times> real) \<Rightarrow> chain \<times> py_exception option" where
  "cell9 rng = sampling_loop target_dist (2 / 10) 0 1000000 rng"

subsection \<open>Densities of the test scenarios\<close>

text \<open>A density that is zero outside a bounded interval.\<close>

definition box_density :: "real \<Rightarrow> py_exception + real" where
  "box_density x = Inr (if 0 \<le> x \<and> x \<le> 1 then 1 else 0)"

text \<open>A constant density.\<close>

definition flat_density :: "real \<Rightarrow> py_exception + real" where
  "flat_density x = Inr 1"

text \<open>A density that raises a domain error at every position above 10.\<close>

definition bounded_domain_density :: "real \<Rightarrow> py_exception + real" where
  "bounded_domain_density x = (if 10 < x then Inl ValueError else Inr 1)"


section \<open>Properties of the model\<close>

subsection \<open>The acceptance value\<close>

lemma acceptance_nonzero: "tc \<noteq> 0 \<Longrightarrow> acceptance tp tc = Finite (min 1 (tp / tc))"
  by (simp add: acceptance_def true_divide_def py_min_def min_def)

lemma acceptance_zero_divisor:
  "acceptance tp 0 = (if tp < 0 then NegInf else Finite 1)"
  by (simp add: acceptance_def true_divide_def py_min_def)


lemma acceptance_not_NaN: "acceptance tp tc \<noteq> NaN"
  by (simp add: acceptance_def true_divide_def py_min_def)



lemma accepted_density_nonneg:
  assumes "fl_less (Finite u) (acceptance tp tc)" and "0 \<le> tc" and "0 \<le> u"
  shows "0 \<le> tp"
proof (rule ccontr)
  assume "\<not> 0 \<le> tp"
  then have neg: "tp < 0" by simp
  show False
  proof (cases "tc = 0")
    case True
    with neg assms(1) show False by (simp add: acceptance_zero_divisor)
  next
    case False
    with assms(2) have "0 < tc" by simp
    with neg have "tp / tc < 0" by (simp add: divide_neg_pos)
    then have "min 1 (tp / tc) < 0" by simp
    with assms(1,3) False show False by (simp add: acceptance_nonzero)
  qed
qed

subsection \<open>The loop body\<close>

lemma warn_fields [simp]:
  "x_target (warn w s) = x_target s" "x_current (warn w s) = x_current s"
  by (simp_all add: warn_def split: option.splits)

lemma warn_None [simp]: "warn None s = s"
  by (simp add: warn_def)

lemma warn_Some [simp]: "warn (Some x) s = s\<lparr>warned := warned s @ [x]\<rparr>"
  by (simp add: warn_def)

lemma np_uniform_unit [simp]: "np_uniform 0 1 r = r"
  by (simp add: np_uniform_def)

lemma step_eval:
  assumes "density (x_proposal scale (x_current s) (fst d)) = Inr tp"
    and "density (x_current s) = Inr tc"
  shows "step density scale s d =
           Inr (if fl_less (Finite (snd d)) (acceptance tp tc)
                then (warn (snd (true_divide tp tc)) s)
                       \<lparr>x_target := x_target s @ [x_proposal scale (x_current s) (fst d)],
                        x_current := x_proposal scale (x_current s) (fst d)\<rparr>
                else warn (snd (true_divide tp tc)) s)"
  using assms by (simp add: step_def Let_def)

lemma step_Inl_iff:
  "step density scale s d = Inl e \<longleftrightarrow>
     density (x_proposal scale (x_current s) (fst d)) = Inl e \<or>
     (\<exists>tp. density (x_proposal scale (x_current s) (fst d)) = Inr tp \<and>
           density (x_current s) = Inl e)"
  by (auto simp: step_def Let_def split: sum.splits)

lemma step_Inr_cases:
  assumes "step density scale s d = Inr s'"
  obtains tp tc where "density (x_proposal scale (x_current s) (fst d)) = Inr tp"
    and "density (x_current s) = Inr tc"
    and "s' = (if fl_less (Finite (snd d)) (acceptance tp tc)
                then (warn (snd (true_divide tp tc)) s)
                       \<lparr>x_target := x_target s @ [x_proposal scale (x_current s) (fst d)],
                        x_current := x_proposal scale (x_current s) (fst d)\<rparr>
                else warn (snd (true_divide tp tc)) s)"
  using assms by (auto simp: step_def Let_def split: sum.splits if_splits)

lemma step_fields:
  assumes "step density scale s d = Inr s'"
  shows "(x_target s' = x_target s \<and> x_current s' = x_current s) \<or>
         (x_target s' = x_target s @ [x_current s'] \<and>
          x_current s' = x_proposal scale (x_current s) (fst d))"
  using assms by (rule step_Inr_cases) (simp split: if_splits)

lemma step_density_nonneg:
  assumes "step density scale s d = Inr s'" and "density (x_current s) = Inr v" and "0 \<le> v"
    and "0 \<le> snd d"
  shows "\<exists>v'. density (x_current s') = Inr v' \<and> 0 \<le> v'"
  using assms(1)
proof (rule step_Inr_cases)
  fix tp tc
  assume p: "density (x_proposal scale (x_current s) (fst d)) = Inr tp"
    and c: "density (x_current s) = Inr tc"
    and s': "s' = (if fl_less (Finite (snd d)) (acceptance tp tc)
                then (warn (snd (true_divide tp tc)) s)
                       \<lparr>x_target := x_target s @ [x_proposal scale (x_current s) (fst d)],
                        x_current := x_proposal scale (x_current s) (fst d)\<rparr>
                else warn (snd (true_divide tp tc)) s)"
  from c assms(2) have tc: "tc = v" by simp
  show ?thesis
  proof (cases "fl_less (Finite (snd d)) (acceptance tp tc)")
    case True
    from accepted_density_nonneg [OF True] assms(3,4) tc have "0 \<le> tp" by simp
    with True s' p show ?thesis by simp
  next
    case False
    with s' assms(2,3) show ?thesis by simp
  qed
qed

subsection \<open>The loop\<close>

lemma run_append:
  "run density scale s (xs @ ys) =
     (case run density scale s xs of
        (s1, None) \<Rightarrow> run density scale s1 ys
      | (s1, Some e) \<Rightarrow> (s1, Some e))"
  by (induction xs arbitrary: s) (auto split: sum.splits)

lemma run_total:
  assumes "\<forall>x. \<exists>v. density x = Inr v"
  shows "snd (run density scale s ds) = None"
proof (induction ds arbitrary: s)
  case Nil
  then show ?case by simp
next
  case (Cons d ds)
  from assms obtain tp tc where
    "density (x_proposal scale (x_current s) (fst d)) = Inr tp" "density (x_current s) = Inr tc"
    by (meson)
  from step_eval [OF this] Cons.IH show ?case by simp
qed

lemma run_records:
  "\<exists>ys. x_target (fst (run density scale s ds)) = x_target s @ ys \<and>
        x_current (fst (run density scale s ds)) = last (x_current s # ys) \<and>
        length ys \<le> length ds"
proof (induction ds arbitrary: s)
  case Nil
  then show ?case by simp
next
  case (Cons d ds)
  show ?case
  proof (cases "step density scale s d")
    case (Inl e)
    then show ?thesis by simp
  next
    case (Inr s')
    from Cons.IH [of s'] obtain ys where
      ys: "x_target (fst (run density scale s' ds)) = x_target s' @ ys"
          "x_current (fst (run density scale s' ds)) = last (x_current s' # ys)"
          "length ys \<le> length ds"
      by blast
    from step_fields [OF Inr] show ?thesis
    proof
      assume "x_target s' = x_target s \<and> x_current s' = x_current s"
      with ys Inr show ?thesis by auto
    next
      assume a: "x_target s' = x_target s @ [x_current s'] \<and>
          x_current s' = x_proposal scale (x_current s) (fst d)"
      have "x_target (fst (run density scale s (d # ds))) = x_target s @ (x_current s' # ys)"
        using ys(1) a Inr by simp
      moreover have "x_current (fst (run density scale s (d # ds))) = last (x_current s # x_current s' # ys)"
        using ys(2) Inr by simp
      moreover have "length (x_current s' # ys) \<le> length (d # ds)"
        using ys(3) by simp
      ultimately show ?thesis by blast
    qed
  qed
qed

lemma run_init_current:
  "x_current (fst (run density scale (init x0) ds)) =
     last (x0 # x_target (fst (run density scale (init x0) ds)))"
  using run_records [of density scale "init x0" ds] by (auto simp: init_def)


lemma run_density_nonneg:
  assumes "density (x_current s) = Inr v0" and "0 \<le> v0" and "\<forall>d\<in>set ds. 0 \<le> snd d"
  shows "\<exists>v. density (x_current (fst (run density scale s ds))) = Inr v \<and> 0 \<le> v"
  using assms
proof (induction ds arbitrary: s v0)
  case Nil
  then show ?case by simp
next
  case (Cons d ds)
  show ?case
  proof (cases "step density scale s d")
    case (Inl e)
    with Cons.prems show ?thesis by simp
  next
    case (Inr s')
    have "0 \<le> snd d" using Cons.prems(3) by simp
    from step_density_nonneg [OF Inr Cons.prems(1,2) this]
    obtain v' where v': "density (x_current s') = Inr v'" "0 \<le> v'" by blast
    have "\<forall>d\<in>set ds. 0 \<le> snd d" using Cons.prems(3) by simp
    from Cons.IH [OF v' this] Inr show ?thesis by simp
  qed
qed

lemma run_all_rejected:
  assumes "\<forall>d\<in>set ds. \<exists>tp tc. density (x_proposal scale (x_current s) (fst d)) = Inr tp \<and>
             density (x_current s) = Inr tc \<and>
             \<not> fl_less (Finite (np_uniform 0 1 (snd d))) (acceptance tp tc)"
  shows "x_target (fst (run density scale s ds)) = x_target s \<and>
         x_current (fst (run density scale s ds)) = x_current s \<and>
         snd (run density scale s ds) = None"
  using assms
proof (induction ds arbitrary: s)
  case Nil
  then show ?case by simp
next
  case (Cons d ds)
  from Cons.prems obtain tp tc where
    p: "density (x_proposal scale (x_current s) (fst d)) = Inr tp"
    and c: "density (x_current s) = Inr tc"
    and r: "\<not> fl_less (Finite (snd d)) (acceptance tp tc)"
    by auto
  let ?s' = "warn (snd (true_divide tp tc)) s"
  have st: "step density scale s d = Inr ?s'"
    using step_eval [OF p c] r by simp
  have "\<forall>d\<in>set ds. \<exists>tp tc. density (x_proposal scale (x_current ?s') (fst d)) = Inr tp \<and>
             density (x_current ?s') = Inr tc \<and>
             \<not> fl_less (Finite (np_uniform 0 1 (snd d))) (acceptance tp tc)"
    using Cons.prems by simp
  from Cons.IH [OF this] st show ?case by simp
qed

lemma run_records_accepted:
  assumes "p \<in> set (x_target (fst (run density scale s ds)))"
  shows "p \<in> set (x_target s) \<or>
         (\<exists>d\<in>set ds. \<exists>c tp tc. p = x_proposal scale c (fst d) \<and> density p = Inr tp \<and>
            density c = Inr tc \<and> fl_less (Finite (np_uniform 0 1 (snd d))) (acceptance tp tc))"
  using assms
proof (induction ds arbitrary: s)
  case Nil
  then show ?case by simp
next
  case (Cons d ds)
  show ?case
  proof (cases "step density scale s d")
    case (Inl e)
    with Cons.prems show ?thesis by simp
  next
    case (Inr s')
    with Cons.prems have "p \<in> set (x_target (fst (run density scale s' ds)))" by simp
    from Cons.IH [OF this] show ?thesis
    proof
      assume in_s': "p \<in> set (x_target s')"
      from Inr show ?thesis
      proof (rule step_Inr_cases)
        fix tp tc
        assume dp: "density (x_proposal scale (x_current s) (fst d)) = Inr tp"
          and dc: "density (x_current s) = Inr tc"
          and s': "s' = (if fl_less (Finite (snd d)) (acceptance tp tc)
                then (warn (snd (true_divide tp tc)) s)
                       \<lparr>x_target := x_target s @ [x_proposal scale (x_current s) (fst d)],
                        x_current := x_proposal scale (x_current s) (fst d)\<rparr>
                else warn (snd (true_divide tp tc)) s)"
        show ?thesis
        proof (cases "p \<in> set (x_target s)")
          case True
          then show ?thesis by simp
        next
          case False
          with in_s' s' have acc: "fl_less (Finite (snd d)) (acceptance tp tc)"
            and peq: "p = x_proposal scale (x_current s) (fst d)"
            by (auto split: if_splits)
          have "\<exists>c tp tc. p = x_proposal scale c (fst d) \<and> density p = Inr tp \<and>
            density c = Inr tc \<and> fl_less (Finite (np_uniform 0 1 (snd d))) (acceptance tp tc)"
            using acc peq dp dc by auto
          then show ?thesis by auto
        qed
      qed
    next
      assume "\<exists>d\<in>set ds. \<exists>c tp tc. p = x_proposal scale c (fst d) \<and> density p = Inr tp \<and>
            density c = Inr tc \<and> fl_less (Finite (np_uniform 0 1 (snd d))) (acceptance tp tc)"
      then show ?thesis by auto
    qed
  qed
qed

subsection \<open>The loop on densities with non-finite values\<close>





subsection \<open>The notebook's run\<close>

text \<open>
  The density of the notebook is 0 at the start position 0 and negative just below it.
\<close>

lemma target_value_zero: "target_value 0 = 0"
  by (simp add: target_value_def)


text \<open>
  The density never raises, so the million iterations complete; they append at most a
  million records.
\<close>

lemma cell9_completes: "snd (cell9 rng) = None"
  unfolding cell9_def sampling_loop_def
  by (rule run_total) (simp add: target_dist_def)

lemma cell9_records_bound: "length (x_target (fst (cell9 rng))) \<le> 1000000"
  using run_records [of target_dist "2 / 10" "init 0" "map rng [0..<1000000]"]
  by (auto simp: cell9_def sampling_loop_def init_def)

text \<open>
  The first iteration divides by \<open>target_dist(0) = 0\<close>, whatever it draws: this is the
  \<open>RuntimeWarning\<close> in the notebook's output.
\<close>

lemma cell9_first_iteration_warns:
  "\<exists>s'. step target_dist (2 / 10) (init 0) d = Inr s' \<and> warned s' \<noteq> []"
proof -
  have "target_dist (x_proposal (2 / 10) (x_current (init 0)) (fst d))
          = Inr (target_value (x_proposal (2 / 10) (x_current (init 0)) (fst d)))"
    and "target_dist (x_current (init 0)) = Inr 0"
    by (simp_all add: target_dist_def init_def target_value_zero)
  from step_eval [OF this] show ?thesis
    by (simp add: true_divide_def)
qed

text \<open>
  Although the density is negative on part of the line, the chain never rests at a
  position of negative density.
\<close>

lemma cell9_current_density:
  assumes "\<forall>i<1000000. 0 \<le> snd (rng i)"
  shows "0 \<le> target_value (x_current (fst (cell9 rng)))"
proof -
  have a: "target_dist (x_current (init 0)) = Inr 0"
    by (simp add: target_dist_def init_def target_value_zero)
  have b: "\<forall>d\<in>set (map rng [0..<1000000]). 0 \<le> snd d"
    using assms by simp
  have "\<exists>v. target_dist (x_current (fst (run target_dist (2 / 10) (init 0) (map rng [0..<1000000]))))
            = Inr v \<and> 0 \<le> v"
    using a _ b by (rule run_density_nonneg) simp
  then show ?thesis
    by (simp add: cell9_def sampling_loop_def target_dist_def)
qed

section \<open>The claims\<close>

subsection \<open>C1: zero density at both positions\<close>

text \<open>
  C1, as the loop behaves. When the density is zero at both the current and the proposed
  position, the quotient is 0/0: numpy returns NaN and emits its "invalid value"
  \<open>RuntimeWarning\<close> (the loop has no \<open>DegenerateDensity\<close> signal of its own), the
  iteration completes without an exception, and the loop goes on with the next iteration.
\<close>

theorem degenerate_density_continues:
  assumes "density (x_proposal scale (x_current s) (fst d)) = Inr 0"
    and "density (x_current s) = Inr 0"
  shows "\<exists>s'. step density scale s d = Inr s' \<and> warned s' = warned s @ [InvalidValue] \<and>
              run density scale s (d # ds) = run density scale s' ds"
  using step_eval [OF assms] by (simp add: true_divide_def)

theorem degenerate_density_continues_witness:
  "box_density (x_proposal (2 / 10) (x_current (init 5)) (fst (0 :: real, 1 / 2 :: real))) = Inr 0 \<and>
   box_density (x_current (init 5)) = Inr 0 \<and>
   (\<exists>s'. step box_density (2 / 10) (init 5) (0, 1 / 2) = Inr s' \<and>
         warned s' = warned (init 5) @ [InvalidValue] \<and>
         run box_density (2 / 10) (init 5) [(0, 1 / 2), (1 / 2, 0)]
           = run box_density (2 / 10) s' [(1 / 2, 0)])"
  using degenerate_density_continues [where density = box_density and scale = "2 / 10"
      and s = "init 5" and d = "(0, 1 / 2)" and ds = "[(1 / 2, 0)]"]
  by (simp add: box_density_def init_def x_proposal_def np_uniform_def)

text \<open>
  The iteration is not a forced rejection, as C1 is worded: \<open>min(1, nan)\<close> is 1, so the
  test \<open>u < 1\<close> passes and the proposal is appended. With the notebook's own density and
  start, the draw \<open>r = 1/2\<close> proposes the position 0 again and emits it; with a density
  that is zero outside \<open>[0, 1]\<close>, a chain started at 5 moves to 5.1.
\<close>

theorem degenerate_density_counterexample:
  "target_dist (x_current (init 0)) = Inr 0 \<and>
   target_dist (x_proposal (2 / 10) (x_current (init 0)) (1 / 2)) = Inr 0 \<and>
   acceptance 0 0 = Finite 1 \<and>
   step target_dist (2 / 10) (init 0) (1 / 2, 1 / 2)
     = Inr \<lparr>x_target = [0], x_current = 0, warned = [InvalidValue]\<rparr> \<and>
   box_density (x_current (init 5)) = Inr 0 \<and>
   box_density (x_proposal (2 / 10) (x_current (init 5)) 0) = Inr 0 \<and>
   step box_density (2 / 10) (init 5) (0, 1 / 2)
     = Inr \<lparr>x_target = [51 / 10], x_current = 51 / 10, warned = [InvalidValue]\<rparr>"
  by (simp add: target_dist_def target_value_def box_density_def init_def x_proposal_def
      np_uniform_def acceptance_zero_divisor step_def Let_def true_divide_def)

subsection \<open>C2: the acceptance value\<close>




subsection \<open>C3: the proposal\<close>

text \<open>
  C3, as the loop behaves. For a positive scale and a unit sample \<open>r\<close> of the generator,
  the perturbation \<open>np.random.uniform(-scale/2, scale/2)\<close> lies in the half-open interval
  \<open>[-scale/2, scale/2)\<close>, lower endpoint included; the interval is symmetric about zero
  (the samples \<open>r\<close> and \<open>1 - r\<close> give opposite perturbations); and the proposed position
  is the current position minus the perturbation.
\<close>

theorem proposal_window:
  assumes "0 < scale" and "unit_sample r"
  shows "- scale / 2 \<le> np_uniform (- scale / 2) (scale / 2) r \<and>
         np_uniform (- scale / 2) (scale / 2) r < scale / 2 \<and>
         np_uniform (- scale / 2) (scale / 2) (1 - r) = - np_uniform (- scale / 2) (scale / 2) r \<and>
         x_proposal scale xc r = xc - np_uniform (- scale / 2) (scale / 2) r"
proof -
  have r: "0 \<le> r" "r < 1" using assms(2) by (simp_all add: unit_sample_def)
  have u: "np_uniform (- scale / 2) (scale / 2) r = scale * r - scale / 2"
    by (simp add: np_uniform_def algebra_simps)
  have "0 \<le> scale * r" using assms(1) r(1) by simp
  then have lo: "- scale / 2 \<le> np_uniform (- scale / 2) (scale / 2) r"
    unfolding u by linarith
  have "scale * r < scale * 1" by (rule mult_strict_left_mono [OF r(2) assms(1)])
  then have "scale * r < scale" by simp
  then have hi: "np_uniform (- scale / 2) (scale / 2) r < scale / 2"
    unfolding u by linarith
  have sym: "np_uniform (- scale / 2) (scale / 2) (1 - r) = - np_uniform (- scale / 2) (scale / 2) r"
    by (simp add: np_uniform_def algebra_simps)
  show ?thesis using lo hi sym by (simp add: x_proposal_def)
qed

theorem proposal_window_witness:
  "(0 :: real) < 2 / 10 \<and> unit_sample (3 / 4) \<and>
   - (2 / 10) / 2 \<le> np_uniform (- (2 / 10) / 2) ((2 / 10) / 2) (3 / 4) \<and>
   np_uniform (- (2 / 10) / 2) ((2 / 10) / 2) (3 / 4) < (2 / 10) / 2 \<and>
   x_proposal (2 / 10) 0 (3 / 4) = 0 - np_uniform (- (2 / 10) / 2) ((2 / 10) / 2) (3 / 4)"
  using proposal_window [of "2 / 10" "3 / 4" 0]
  by (simp add: unit_sample_def)

text \<open>
  The interval is not open, as C3 is worded: the unit sample 0 gives the perturbation
  \<open>-scale/2\<close> itself.
\<close>

theorem proposal_lower_endpoint_counterexample:
  "unit_sample 0 \<and> np_uniform (- (2 / 10) / 2) ((2 / 10) / 2) 0 = - (2 / 10) / 2 \<and>
   \<not> (- (2 / 10) / 2 < np_uniform (- (2 / 10) / 2) ((2 / 10) / 2) 0)"
  by (simp add: unit_sample_def np_uniform_def)

subsection \<open>C4: zero density at the proposal\<close>

text \<open>
  C4. When the density is exactly 0 at the proposed position and strictly positive at the
  current one, the acceptance value is 0 and the iteration is rejected for every drawn
  \<open>u\<close> that is not negative, so for every \<open>u\<close> of \<open>[0, 1)\<close>: the loop variables are
  unchanged, \<open>x_current\<close> keeps its value and nothing is appended to \<open>x_target\<close>.
\<close>

theorem zero_density_rejection:
  assumes "density (x_proposal scale (x_current s) r) = Inr 0"
    and "density (x_current s) = Inr tc" and "0 < tc" and "0 \<le> u"
  shows "acceptance 0 tc = Finite 0 \<and> step density scale s (r, u) = Inr s"
proof -
  have a: "acceptance 0 tc = Finite 0"
    using assms(3) by (simp add: acceptance_nonzero)
  have w: "snd (true_divide 0 tc) = None"
    using assms(3) by (simp add: true_divide_def)
  show ?thesis
    using a w assms(4) step_eval [of density scale s "(r, u)" 0 tc] assms(1,2)
    by simp
qed

theorem zero_density_rejection_witness:
  "box_density (x_proposal (2 / 10) (x_current (init 1)) 0) = Inr 0 \<and>
   box_density (x_current (init 1)) = Inr 1 \<and>
   acceptance 0 1 = Finite 0 \<and> step box_density (2 / 10) (init 1) (0, 0) = Inr (init 1)"
  using zero_density_rejection [of box_density "2 / 10" "init 1" 0 1 0]
  by (simp add: box_density_def init_def x_proposal_def np_uniform_def)

subsection \<open>C5: a constant density\<close>



subsection \<open>C6: a density that raises\<close>

text \<open>
  C6, as the loop behaves. After iterations that completed and left the variables \<open>s1\<close>,
  if the density raises \<open>e\<close> in the next iteration (at the proposal, or at the current
  position once the proposal has been evaluated), the loop ends in that iteration with
  the exception \<open>e\<close> itself, and with the variables \<open>s1\<close>: \<open>x_target\<close> still holds the
  records appended before, and the draws of later iterations are not consumed, so nothing
  is evaluated again.
\<close>

theorem density_exception_halts:
  assumes "run density scale s ds = (s1, None)"
    and "density (x_proposal scale (x_current s1) (fst d)) = Inl e \<or>
         (\<exists>tp. density (x_proposal scale (x_current s1) (fst d)) = Inr tp \<and>
               density (x_current s1) = Inl e)"
  shows "run density scale s (ds @ d # rest) = (s1, Some e)"
proof -
  have "step density scale s1 d = Inl e"
    using assms(2) by (simp add: step_Inl_iff)
  then show ?thesis
    using assms(1) by (simp add: run_append)
qed

theorem density_exception_halts_witness:
  "run bounded_domain_density (2 / 10) (init (197 / 20)) [(0, 0)]
     = (\<lparr>x_target = [199 / 20], x_current = 199 / 20, warned = []\<rparr>, None) \<and>
   bounded_domain_density (x_proposal (2 / 10) (199 / 20) 0) = Inl ValueError \<and>
   run bounded_domain_density (2 / 10) (init (197 / 20)) ([(0, 0)] @ (0, 0) # [(1 / 2, 1 / 2)])
     = (\<lparr>x_target = [199 / 20], x_current = 199 / 20, warned = []\<rparr>, Some ValueError)"
proof -
  have h1: "run bounded_domain_density (2 / 10) (init (197 / 20)) [(0, 0)]
     = (\<lparr>x_target = [199 / 20], x_current = 199 / 20, warned = []\<rparr>, None)"
    by (simp add: bounded_domain_density_def init_def x_proposal_def np_uniform_def
      acceptance_nonzero step_def Let_def true_divide_def)
  have h2: "bounded_domain_density (x_proposal (2 / 10) (199 / 20) 0) = Inl ValueError"
    by (simp add: bounded_domain_density_def x_proposal_def np_uniform_def)
  show ?thesis
    using density_exception_halts [where density = bounded_domain_density and scale = "2 / 10"
      and s = "init (197 / 20)" and ds = "[(0, 0)]" and d = "(0, 0)" and e = ValueError
      and ?s1.0 = "\<lparr>x_target = [199 / 20], x_current = 199 / 20, warned = []\<rparr>"
      and rest = "[(1 / 2, 1 / 2)]"] h1 h2
    by simp
qed

text \<open>
  The exception is not a \<open>TargetEvaluationError\<close> carrying the position, as C6 is worded:
  no such error exists in the notebook, and the density's own exception leaves the loop
  unchanged. A density that raises \<open>ValueError\<close> above 10, started at 9.85: the first
  iteration accepts 9.95, the second proposes 10.05 and the loop ends with \<open>ValueError\<close>.
\<close>

theorem density_exception_counterexample:
  "run bounded_domain_density (2 / 10) (init (197 / 20)) [(0, 0), (0, 0)]
     = (\<lparr>x_target = [199 / 20], x_current = 199 / 20, warned = []\<rparr>, Some ValueError) \<and>
   snd (run bounded_domain_density (2 / 10) (init (197 / 20)) [(0, 0), (0, 0)])
     \<noteq> Some (TargetEvaluationError (x_proposal (2 / 10) (199 / 20) 0))"
  by (simp add: bounded_domain_density_def init_def x_proposal_def np_uniform_def
      acceptance_nonzero step_def Let_def true_divide_def)

subsection \<open>C7: the density at the current position\<close>




subsection \<open>C8: rejected iterations\<close>

text \<open>
  C8. When both density evaluations succeed and the drawn \<open>u\<close> is at least the acceptance
  value, the iteration completes with \<open>x_current\<close> and \<open>x_target\<close> unchanged; and no
  iteration, accepted or rejected, makes \<open>x_target\<close> longer by more than one record.
\<close>

theorem rejection_leaves_chain:
  "(density (x_proposal scale (x_current s) (fst d)) = Inr tp \<longrightarrow>
    density (x_current s) = Inr tc \<longrightarrow>
    fl_le (acceptance tp tc) (Finite (np_uniform 0 1 (snd d))) \<longrightarrow>
      (\<exists>s'. step density scale s d = Inr s' \<and>
            x_current s' = x_current s \<and> x_target s' = x_target s)) \<and>
   (step density scale s d = Inr s'' \<longrightarrow> length (x_target s'') \<le> Suc (length (x_target s)))"
proof (intro conjI impI)
  assume p: "density (x_proposal scale (x_current s) (fst d)) = Inr tp"
    and c: "density (x_current s) = Inr tc"
    and r: "fl_le (acceptance tp tc) (Finite (np_uniform 0 1 (snd d)))"
  have "\<not> fl_less (Finite (snd d)) (acceptance tp tc)"
    using r by (cases "acceptance tp tc") simp_all
  then show "\<exists>s'. step density scale s d = Inr s' \<and>
            x_current s' = x_current s \<and> x_target s' = x_target s"
    using step_eval [OF p c] by simp
next
  assume "step density scale s d = Inr s''"
  from step_fields [OF this] show "length (x_target s'') \<le> Suc (length (x_target s))"
    by auto
qed

theorem rejection_leaves_chain_witness:
  "box_density (x_proposal (2 / 10) (x_current (init 1)) (fst (0, 1 / 2))) = Inr 0 \<and>
   box_density (x_current (init 1)) = Inr 1 \<and>
   fl_le (acceptance 0 1) (Finite (np_uniform 0 1 (snd (0 :: real, 1 / 2 :: real)))) \<and>
   step box_density (2 / 10) (init 1) (0, 1 / 2) = Inr (init 1) \<and>
   length (x_target (init 1)) \<le> Suc (length (x_target (init 1)))"
  using rejection_leaves_chain [of box_density "2 / 10" "init 1" "(0, 1 / 2)" 0 1 "init 1"]
  by (simp add: box_density_def init_def x_proposal_def np_uniform_def acceptance_nonzero
      step_def Let_def true_divide_def)

subsection \<open>C9: accepted iterations\<close>

text \<open>
  C9. An iteration in which both density evaluations succeed and the drawn \<open>u\<close> is less
  than the acceptance value replaces \<open>x_current\<close> by the proposal and appends that same
  value to \<open>x_target\<close>. No iteration changes the two variables in another way: it leaves
  both as they are, or it replaces \<open>x_current\<close> by the proposal and appends it. Hence
  after a run from the initial variables in which something was appended, \<open>x_current\<close> is
  the last record.
\<close>

theorem accepted_proposal_is_current:
  "(density (x_proposal scale (x_current s) (fst d)) = Inr tp \<longrightarrow>
    density (x_current s) = Inr tc \<longrightarrow>
    fl_less (Finite (np_uniform 0 1 (snd d))) (acceptance tp tc) \<longrightarrow>
      (\<exists>s1. step density scale s d = Inr s1 \<and>
            x_current s1 = x_proposal scale (x_current s) (fst d) \<and>
            x_target s1 = x_target s @ [x_proposal scale (x_current s) (fst d)])) \<and>
   (step density scale s d = Inr s' \<longrightarrow>
      (x_target s' = x_target s \<and> x_current s' = x_current s) \<or>
      (x_target s' = x_target s @ [x_current s'] \<and>
       x_current s' = x_proposal scale (x_current s) (fst d))) \<and>
   (x_target (fst (run density scale (init x0) ds)) \<noteq> [] \<longrightarrow>
      x_current (fst (run density scale (init x0) ds)) =
        last (x_target (fst (run density scale (init x0) ds))))"
proof (intro conjI impI)
  assume p: "density (x_proposal scale (x_current s) (fst d)) = Inr tp"
    and c: "density (x_current s) = Inr tc"
    and a: "fl_less (Finite (np_uniform 0 1 (snd d))) (acceptance tp tc)"
  show "\<exists>s1. step density scale s d = Inr s1 \<and>
            x_current s1 = x_proposal scale (x_current s) (fst d) \<and>
            x_target s1 = x_target s @ [x_proposal scale (x_current s) (fst d)]"
    using step_eval [OF p c] a by simp
next
  assume "step density scale s d = Inr s'"
  then show "(x_target s' = x_target s \<and> x_current s' = x_current s) \<or>
      (x_target s' = x_target s @ [x_current s'] \<and>
       x_current s' = x_proposal scale (x_current s) (fst d))"
    by (rule step_fields)
next
  assume "x_target (fst (run density scale (init x0) ds)) \<noteq> []"
  then show "x_current (fst (run density scale (init x0) ds)) =
        last (x_target (fst (run density scale (init x0) ds)))"
    using run_init_current [of density scale x0 ds] by simp
qed

theorem accepted_proposal_is_current_witness:
  "flat_density (x_proposal (2 / 10) (x_current (init 0)) (fst (0 :: real, 1 / 2 :: real))) = Inr 1 \<and>
   flat_density (x_current (init 0)) = Inr 1 \<and>
   fl_less (Finite (np_uniform 0 1 (snd (0 :: real, 1 / 2 :: real)))) (acceptance 1 1) \<and>
   step flat_density (2 / 10) (init 0) (0, 1 / 2)
     = Inr \<lparr>x_target = [1 / 10], x_current = 1 / 10, warned = []\<rparr> \<and>
   x_target (fst (run flat_density (2 / 10) (init 0) [(0, 1 / 2), (1 / 2, 0)])) = [1 / 10, 1 / 10] \<and>
   x_current (fst (run flat_density (2 / 10) (init 0) [(0, 1 / 2), (1 / 2, 0)])) = 1 / 10"
  using accepted_proposal_is_current [where density = flat_density and scale = "2 / 10"
      and s = "init 0" and d = "(0, 1 / 2)" and tp = 1 and tc = 1
      and s' = "\<lparr>x_target = [1 / 10], x_current = 1 / 10, warned = []\<rparr>"
      and ?x0.0 = 0 and ds = "[(0, 1 / 2), (1 / 2, 0)]"]
  by (simp add: flat_density_def init_def x_proposal_def np_uniform_def acceptance_nonzero
      step_def Let_def true_divide_def)

subsection \<open>C10: what is emitted\<close>

text \<open>
  C10. A run of no iteration returns the initial variables: no record, the initial position.
  A run in which the test fails in every iteration ends without an exception, with no
  record and at the initial position. And every record of a run from the initial
  variables is the proposal of one of its iterations that passed the test against the
  density at some position; the initial position is not put into \<open>x_target\<close> as such.
\<close>

theorem only_accepted_proposals_emitted:
  "run density scale (init x0) [] = (init x0, None) \<and>
   ((\<forall>d\<in>set ds. \<exists>tp tc. density (x_proposal scale x0 (fst d)) = Inr tp \<and>
        density x0 = Inr tc \<and>
        \<not> fl_less (Finite (np_uniform 0 1 (snd d))) (acceptance tp tc)) \<longrightarrow>
      x_target (fst (run density scale (init x0) ds)) = [] \<and>
      x_current (fst (run density scale (init x0) ds)) = x0 \<and>
      snd (run density scale (init x0) ds) = None) \<and>
   (\<forall>p\<in>set (x_target (fst (run density scale (init x0) ds))).
      \<exists>d\<in>set ds. \<exists>c tp tc. p = x_proposal scale c (fst d) \<and> density p = Inr tp \<and>
        density c = Inr tc \<and> fl_less (Finite (np_uniform 0 1 (snd d))) (acceptance tp tc))"
proof (intro conjI impI ballI)
  show "run density scale (init x0) [] = (init x0, None)" by simp
next
  assume "\<forall>d\<in>set ds. \<exists>tp tc. density (x_proposal scale x0 (fst d)) = Inr tp \<and>
        density x0 = Inr tc \<and>
        \<not> fl_less (Finite (np_uniform 0 1 (snd d))) (acceptance tp tc)"
  then have h: "\<forall>d\<in>set ds. \<exists>tp tc. density (x_proposal scale (x_current (init x0)) (fst d)) = Inr tp \<and>
        density (x_current (init x0)) = Inr tc \<and>
        \<not> fl_less (Finite (np_uniform 0 1 (snd d))) (acceptance tp tc)"
    by (simp add: init_def)
  from run_all_rejected [OF h]
  show "x_target (fst (run density scale (init x0) ds)) = []"
    and "x_current (fst (run density scale (init x0) ds)) = x0"
    and "snd (run density scale (init x0) ds) = None"
    by (simp_all add: init_def)
next
  fix p assume "p \<in> set (x_target (fst (run density scale (init x0) ds)))"
  from run_records_accepted [OF this]
  show "\<exists>d\<in>set ds. \<exists>c tp tc. p = x_proposal scale c (fst d) \<and> density p = Inr tp \<and>
        density c = Inr tc \<and> fl_less (Finite (np_uniform 0 1 (snd d))) (acceptance tp tc)"
    by (simp add: init_def)
qed

theorem only_accepted_proposals_emitted_witness:
  "run box_density (2 / 10) (init 1) [] = (init 1, None) \<and>
   box_density (x_proposal (2 / 10) 1 0) = Inr 0 \<and>
   box_density (x_proposal (2 / 10) 1 (1 / 4)) = Inr 0 \<and> box_density 1 = Inr 1 \<and>
   \<not> fl_less (Finite (np_uniform 0 1 0)) (acceptance 0 1) \<and>
   \<not> fl_less (Finite (np_uniform 0 1 (1 / 2))) (acceptance 0 1) \<and>
   x_target (fst (run box_density (2 / 10) (init 1) [(0, 0), (1 / 4, 1 / 2)])) = [] \<and>
   x_current (fst (run box_density (2 / 10) (init 1) [(0, 0), (1 / 4, 1 / 2)])) = 1 \<and>
   snd (run box_density (2 / 10) (init 1) [(0, 0), (1 / 4, 1 / 2)]) = None \<and>
   x_target (fst (run box_density (2 / 10) (init (9 / 10)) [(0, 1 / 2)])) = [1] \<and>
   (\<exists>d\<in>set [(0 :: real, 1 / 2 :: real)]. \<exists>c tp tc. 1 = x_proposal (2 / 10) c (fst d) \<and>
        box_density 1 = Inr tp \<and> box_density c = Inr tc \<and>
        fl_less (Finite (np_uniform 0 1 (snd d))) (acceptance tp tc))"
proof -
  have h: "\<forall>d\<in>set [(0 :: real, 0 :: real), (1 / 4, 1 / 2)].
      \<exists>tp tc. box_density (x_proposal (2 / 10) 1 (fst d)) = Inr tp \<and> box_density 1 = Inr tc \<and>
        \<not> fl_less (Finite (np_uniform 0 1 (snd d))) (acceptance tp tc)"
    by (simp add: box_density_def x_proposal_def np_uniform_def acceptance_nonzero)
  have e: "x_target (fst (run box_density (2 / 10) (init (9 / 10)) [(0, 1 / 2)])) = [1]"
    by (simp add: box_density_def init_def x_proposal_def np_uniform_def acceptance_nonzero
      step_def Let_def true_divide_def)
  have c: "box_density (x_proposal (2 / 10) 1 0) = Inr 0 \<and>
   box_density (x_proposal (2 / 10) 1 (1 / 4)) = Inr 0 \<and> box_density 1 = Inr 1 \<and>
   \<not> fl_less (Finite (np_uniform 0 1 0)) (acceptance 0 1) \<and>
   \<not> fl_less (Finite (np_uniform 0 1 (1 / 2))) (acceptance 0 1)"
    by (simp add: box_density_def x_proposal_def np_uniform_def acceptance_nonzero)
  have r: "x_target (fst (run box_density (2 / 10) (init 1) [(0, 0), (1 / 4, 1 / 2)])) = [] \<and>
   x_current (fst (run box_density (2 / 10) (init 1) [(0, 0), (1 / 4, 1 / 2)])) = 1 \<and>
   snd (run box_density (2 / 10) (init 1) [(0, 0), (1 / 4, 1 / 2)]) = None"
    using only_accepted_proposals_emitted [where density = box_density and scale = "2 / 10"
      and ?x0.0 = 1 and ds = "[(0, 0), (1 / 4, 1 / 2)]"] h
    by blast
  have a: "\<exists>d\<in>set [(0 :: real, 1 / 2 :: real)]. \<exists>c tp tc. 1 = x_proposal (2 / 10) c (fst d) \<and>
        box_density 1 = Inr tp \<and> box_density c = Inr tc \<and>
        fl_less (Finite (np_uniform 0 1 (snd d))) (acceptance tp tc)"
    using only_accepted_proposals_emitted [where density = box_density and scale = "2 / 10"
      and ?x0.0 = "9 / 10" and ds = "[(0, 1 / 2)]"] e
    by simp
  show ?thesis
    using c r e a by simp
qed

end
